theory Spec2Isabelle
  imports Main "HOL-Library.Sublist"
begin

section \<open>The TMDB proxy worker (src/worker.js)\<close>

text \<open>
  A shallow embedding of the Cloudflare worker \<^verbatim>\<open>src/worker.js\<close>: the request handler
  \<^verbatim>\<open>fetch(request, env, ctx)\<close> and the helper \<^verbatim>\<open>generateEmbedUrl(provider, imdbId, type, env)\<close>.

  Strings are \<open>char list\<close>s (byte sequences, UTF-8 for text beyond ASCII). A JavaScript value
  that may be \<^verbatim>\<open>null\<close> or \<^verbatim>\<open>undefined\<close> is an \<open>option\<close>. The value handed to
  \<^verbatim>\<open>JSON.stringify\<close> is kept as a \<open>json\<close> tree, with the keys of an object literal in the
  order the source writes them; a response body is that tree (\<open>None\<close> for the \<^verbatim>\<open>null\<close> body).
  The one effect of the handler, the outbound \<^verbatim>\<open>fetch(tmdbApiUrl)\<close> followed by
  \<^verbatim>\<open>tmdbResponse.json()\<close>, is a parameter \<open>outbound\<close> that maps the URL to what the upstream
  does; every way the \<^verbatim>\<open>try\<close> block can throw is a value of \<open>exn\<close>.
\<close>

subsection \<open>Data model\<close>

datatype json =
    JNull
  | JBool bool
  | JString string
  | JArray "json list"
  | JObject "(string \<times> json) list"

text \<open>\<^verbatim>\<open>url.searchParams\<close>: the decoded name/value pairs in the order of the query string.
  \<^verbatim>\<open>get\<close> returns the first value of a name or \<^verbatim>\<open>null\<close>; \<^verbatim>\<open>has\<close> tells whether the name
  occurs.\<close>

type_synonym params = "(string \<times> string) list"

definition params_get :: "params \<Rightarrow> string \<Rightarrow> string option" where
  "params_get ps k = map_of ps k"

definition params_has :: "params \<Rightarrow> string \<Rightarrow> bool" where
  "params_has ps k = (case map_of ps k of None \<Rightarrow> False | Some v \<Rightarrow> True)"

record request =
  "method" :: string
  params :: params

text \<open>The bindings of \<^verbatim>\<open>env\<close> that the worker reads; \<open>None\<close> is an unset binding.\<close>

record env =
  TMDB_API_KEY :: "string option"
  VIDSRC_CC_URL :: "string option"
  VIDROCK_NET_URL :: "string option"
  VIDSRC_ME_URL :: "string option"
  VIDFAST_PRO_URL :: "string option"

record response =
  status :: nat
  headers :: "(string \<times> string) list"
  body :: "json option"

datatype action =
    Details
  | Credits
  | Popular
  | Search
  | FindByImdbId
  | GetExternalIds
  | Embed
  | GetProviders
  | Error

text \<open>What the upstream does on the outbound GET: the \<^verbatim>\<open>fetch\<close> promise rejects, or the body
  is not JSON and \<^verbatim>\<open>json()\<close> rejects, or the body parses to a value.\<close>

datatype upstream =
    NetworkError
  | NonJsonBody
  | JsonBody json

datatype exn =
    InternalLogicError
  | FetchRejected
  | JsonParseError

subsection \<open>JavaScript idioms\<close>

text \<open>\<^verbatim>\<open>v || d\<close> on a string that may be undefined: the empty string is falsy.\<close>

definition or_default :: "string option \<Rightarrow> string \<Rightarrow> string" where
  "or_default v d = (case v of None \<Rightarrow> d | Some s \<Rightarrow> if s = [] then d else s)"

text \<open>A value interpolated into a template literal: \<^verbatim>\<open>null\<close> prints as \<^verbatim>\<open>null\<close>.\<close>

definition js_str :: "string option \<Rightarrow> string" where
  "js_str v = (case v of None \<Rightarrow> ''null'' | Some s \<Rightarrow> s)"

text \<open>\<^verbatim>\<open>encodeURIComponent\<close>: every byte of the UTF-8 form is kept when it is one of
  \<^verbatim>\<open>A-Z a-z 0-9 - _ . ! ~ * ' ( )\<close> and written as \<^verbatim>\<open>%XX\<close> (upper-case hex) otherwise.\<close>

definition unreserved :: "char \<Rightarrow> bool" where
  "unreserved c =
     (c \<in> set (''ABCDEFGHIJKLMNOPQRSTUVWXYZabcdefghijklmnopqrstuvwxyz0123456789-_.!~*()''
               @ [CHR 0x27]))"

definition hexdigit :: "nat \<Rightarrow> char" where
  "hexdigit n = ''0123456789ABCDEF'' ! (n mod 16)"

definition pct :: "char \<Rightarrow> string" where
  "pct c = (if unreserved c then [c]
            else [CHR ''%'', hexdigit (of_char c div 16), hexdigit (of_char c mod 16)])"

definition encodeURIComponent :: "string option \<Rightarrow> string" where
  "encodeURIComponent v = concat (map pct (js_str v))"

subsection \<open>Constants of the handler\<close>

definition corsHeaders :: "(string \<times> string) list" where
  "corsHeaders =
     [(''Access-Control-Allow-Origin'', ''*''),
      (''Access-Control-Allow-Methods'', ''GET, HEAD, OPTIONS''),
      (''Access-Control-Allow-Headers'', ''Content-Type''),
      (''X-Content-Type-Options'', ''nosniff'')]"

text \<open>\<^verbatim>\<open>new Response(JSON.stringify(b), { status: st, headers: { ...corsHeaders,
  'Content-Type': 'application/json' } })\<close>; the status is 200 where the source gives none.\<close>

definition json_response :: "nat \<Rightarrow> json \<Rightarrow> response" where
  "json_response st b =
     \<lparr>status = st,
      headers = corsHeaders @ [(''Content-Type'', ''application/json'')],
      body = Some b\<rparr>"

definition videoProviderList :: "json list" where
  "videoProviderList =
     [JObject [(''name'', JString ''alpha''), (''domain'', JString ''vidsrc.cc''),
               (''sandbox'', JBool True)],
      JObject [(''name'', JString ''bravo''), (''domain'', JString ''vidrock.net''),
               (''sandbox'', JBool True)],
      JObject [(''name'', JString ''charlie''), (''domain'', JString ''vidsrc.me''),
               (''sandbox'', JBool True)],
      JObject [(''name'', JString ''delta''), (''domain'', JString ''vidfast.pro''),
               (''sandbox'', JBool True)]]"

subsection \<open>generateEmbedUrl\<close>

text \<open>The result of \<^verbatim>\<open>providerConfigs[provider]\<close> on the object literal: one of its four own
  string properties, a property inherited from \<^verbatim>\<open>Object.prototype\<close> (an object or a
  function, hence truthy), or \<^verbatim>\<open>undefined\<close>.\<close>

datatype lookup =
    Undefined
  | OwnString string
  | Inherited

definition object_prototype_keys :: "string list" where
  "object_prototype_keys =
     [''constructor'', ''__proto__'', ''hasOwnProperty'', ''isPrototypeOf'',
      ''propertyIsEnumerable'', ''toLocaleString'', ''toString'', ''valueOf'',
      ''__defineGetter__'', ''__defineSetter__'', ''__lookupGetter__'',
      ''__lookupSetter__'']"

definition providerConfigs :: "env \<Rightarrow> string \<Rightarrow> lookup" where
  "providerConfigs e provider =
     (if provider = ''vidsrc.cc'' then
        OwnString (or_default (VIDSRC_CC_URL e) ''https://vidsrc.cc/v2/embed/'')
      else if provider = ''vidrock.net'' then
        OwnString (or_default (VIDROCK_NET_URL e) ''https://vidrock.net/'')
      else if provider = ''vidsrc.me'' then
        OwnString (or_default (VIDSRC_ME_URL e) ''https://vidsrc.me/embed/'')
      else if provider = ''vidfast.pro'' then
        OwnString (or_default (VIDFAST_PRO_URL e) ''https://vidfast.pro/'')
      else if provider \<in> set object_prototype_keys then Inherited
      else Undefined)"

fun truthy :: "lookup \<Rightarrow> bool" where
  "truthy Undefined = False"
| "truthy (OwnString s) = (s \<noteq> [])"
| "truthy Inherited = True"

text \<open>The base URL as the template literals print it.\<close>

fun lookup_str :: "lookup \<Rightarrow> string" where
  "lookup_str Undefined = ''undefined''"
| "lookup_str (OwnString s) = s"
| "lookup_str Inherited = ''[object Object]''"

definition generateEmbedUrl :: "string \<Rightarrow> string \<Rightarrow> string \<Rightarrow> env \<Rightarrow> string option" where
  "generateEmbedUrl provider imdbId type e =
     (let baseUrl = providerConfigs e provider in
      if \<not> truthy baseUrl then None
      else if provider = ''vidsrc.cc'' then
        Some (if type = ''tv'' then lookup_str baseUrl @ ''tv/'' @ imdbId
              else lookup_str baseUrl @ ''movie/'' @ imdbId)
      else if provider = ''vidrock.net'' then
        Some (if type = ''tv'' then lookup_str baseUrl @ ''tv/'' @ imdbId
              else lookup_str baseUrl @ ''movie/'' @ imdbId)
      else if provider = ''vidsrc.me'' then
        Some (lookup_str baseUrl @ type @ ''/'' @ imdbId)
      else if provider = ''vidfast.pro'' then
        Some (lookup_str baseUrl @ type @ ''/'' @ imdbId @ ''?autoPlay=true'')
      else None)"

subsection \<open>The handler\<close>

text \<open>Lines 55 to 63: the chain of \<^verbatim>\<open>if\<close>/\<^verbatim>\<open>else if\<close> that sets \<^verbatim>\<open>action\<close>.\<close>

definition classify :: "params \<Rightarrow> action" where
  "classify ps =
     (if params_has ps ''details'' then Details
      else if params_has ps ''credits'' then Credits
      else if params_has ps ''popular'' then Popular
      else if params_has ps ''query'' then Search
      else if params_has ps ''imdb_id'' \<and> params_get ps ''action'' \<noteq> Some ''embed''
        then FindByImdbId
      else if params_has ps ''tmdb_id'' then GetExternalIds
      else if params_get ps ''action'' = Some ''embed'' then Embed
      else if params_get ps ''action'' = Some ''getProviders'' then GetProviders
      else Error)"

definition providers_response :: response where
  "providers_response = json_response 200 (JObject [(''providers'', JArray videoProviderList)])"

text \<open>The \<^verbatim>\<open>switch (action)\<close>: \<open>Inl\<close> is a branch that returns a response, \<open>Inr\<close> a branch
  that sets \<^verbatim>\<open>tmdbApiUrl\<close> and breaks. The \<^verbatim>\<open>embed\<close> case without both parameters falls
  through to the \<^verbatim>\<open>getProviders\<close> case.\<close>

definition switch_action ::
  "action \<Rightarrow> params \<Rightarrow> string \<Rightarrow> string \<Rightarrow> env \<Rightarrow> response + string" where
  "switch_action act ps mediaType apiKey e =
     (case act of
        Details \<Rightarrow>
          Inr (''https://api.themoviedb.org/3/'' @ mediaType @ ''/''
               @ js_str (params_get ps ''details'')
               @ ''?api_key='' @ apiKey @ ''&language=en-US'')
      | Credits \<Rightarrow>
          Inr (''https://api.themoviedb.org/3/'' @ mediaType @ ''/''
               @ js_str (params_get ps ''credits'')
               @ ''/credits?api_key='' @ apiKey @ ''&language=en-US'')
      | Popular \<Rightarrow>
          (let page = or_default (params_get ps ''page'') ''1'';
               popularMediaType = or_default (params_get ps ''media_type'') ''movie''
           in Inr (''https://api.themoviedb.org/3/'' @ popularMediaType
                   @ ''/popular?api_key='' @ apiKey @ ''&language=en-US&page='' @ page))
      | Search \<Rightarrow>
          Inr (''https://api.themoviedb.org/3/search/multi?api_key='' @ apiKey
               @ ''&query='' @ encodeURIComponent (params_get ps ''query'')
               @ ''&language=en-US&page=1'')
      | FindByImdbId \<Rightarrow>
          Inr (''https://api.themoviedb.org/3/find/'' @ js_str (params_get ps ''imdb_id'')
               @ ''?api_key='' @ apiKey @ ''&external_source=imdb_id'')
      | GetExternalIds \<Rightarrow>
          Inr (''https://api.themoviedb.org/3/'' @ mediaType @ ''/''
               @ js_str (params_get ps ''tmdb_id'')
               @ ''/external_ids?api_key='' @ apiKey)
      | Embed \<Rightarrow>
          (case (params_get ps ''provider'', params_get ps ''imdb_id'') of
             (Some provider, Some imdbId) \<Rightarrow>
               if provider \<noteq> [] \<and> imdbId \<noteq> [] then
                 (case generateEmbedUrl provider imdbId mediaType e of
                    Some embedUrl \<Rightarrow>
                      if embedUrl \<noteq> [] then
                        Inl (json_response 200 (JObject [(''embedUrl'', JString embedUrl)]))
                      else
                        Inl (json_response 400 (JObject [(''error'',
                          JString ''Invalid provider or unable to generate embed URL.'')]))
                  | None \<Rightarrow>
                      Inl (json_response 400 (JObject [(''error'',
                        JString ''Invalid provider or unable to generate embed URL.'')])))
               else Inl providers_response
           | _ \<Rightarrow> Inl providers_response)
      | GetProviders \<Rightarrow> Inl providers_response
      | Error \<Rightarrow>
          Inl (json_response 400 (JObject [(''error'',
            JString ''Missing or invalid query parameters.'')])))"

text \<open>The body of the \<^verbatim>\<open>try\<close> block: \<open>Inl\<close> is what it throws.\<close>

definition try_block :: "(string \<Rightarrow> upstream) \<Rightarrow> string \<Rightarrow> exn + response" where
  "try_block outbound tmdbApiUrl =
     (if tmdbApiUrl = [] then Inl InternalLogicError
      else case outbound tmdbApiUrl of
             NetworkError \<Rightarrow> Inl FetchRejected
           | NonJsonBody \<Rightarrow> Inl JsonParseError
           | JsonBody data \<Rightarrow> Inr (json_response 200 data))"

text \<open>The \<^verbatim>\<open>try\<close> with its \<^verbatim>\<open>catch\<close>, which answers 502 whatever was thrown.\<close>

definition try_catch :: "(string \<Rightarrow> upstream) \<Rightarrow> string \<Rightarrow> response" where
  "try_catch outbound tmdbApiUrl =
     (case try_block outbound tmdbApiUrl of
        Inl err \<Rightarrow>
          json_response 502 (JObject [(''error'', JString ''Failed to fetch data from TMDB API.'')])
      | Inr r \<Rightarrow> r)"

definition key_error_response :: response where
  "key_error_response =
     json_response 500
       (JObject [(''error'', JString ''Server configuration error: TMDB_API_KEY secret not set.'')])"

definition fetch :: "(string \<Rightarrow> upstream) \<Rightarrow> request \<Rightarrow> env \<Rightarrow> response" where
  "fetch outbound req e =
     (if method req = ''OPTIONS'' then \<lparr>status = 200, headers = corsHeaders, body = None\<rparr>
      else case TMDB_API_KEY e of
        None \<Rightarrow> key_error_response
      | Some apiKey \<Rightarrow>
          if apiKey = [] then key_error_response
          else
            let ps = params req;
                mediaType = (if params_get ps ''type'' = Some ''tv'' then ''tv'' else ''movie'');
                act = classify ps
            in (case switch_action act ps mediaType apiKey e of
                  Inl r \<Rightarrow> r
                | Inr tmdbApiUrl \<Rightarrow> try_catch outbound tmdbApiUrl))"

text \<open>The \<^verbatim>\<open>env\<close> argument \<^verbatim>\<open>{}\<close>: no binding is set.\<close>

definition no_overrides :: env where
  "no_overrides = \<lparr>TMDB_API_KEY = None, VIDSRC_CC_URL = None, VIDROCK_NET_URL = None,
     VIDSRC_ME_URL = None, VIDFAST_PRO_URL = None\<rparr>"

subsection \<open>The priority order as the specification words it\<close>

text \<open>The triggers of the specification's section 3, in its order, each with the action it
  selects; \<open>spec_matches\<close> lists the actions whose trigger a request matches, first
  priority first. These two follow the specification, everything above follows the source.\<close>

definition spec_priority_order :: "((params \<Rightarrow> bool) \<times> action) list" where
  "spec_priority_order =
     [(\<lambda>ps. params_has ps ''details'', Details),
      (\<lambda>ps. params_has ps ''credits'', Credits),
      (\<lambda>ps. params_has ps ''popular'', Popular),
      (\<lambda>ps. params_has ps ''query'', Search),
      (\<lambda>ps. params_has ps ''imdb_id'' \<and> params_get ps ''action'' \<noteq> Some ''embed'', FindByImdbId),
      (\<lambda>ps. params_has ps ''tmdb_id'', GetExternalIds),
      (\<lambda>ps. params_get ps ''action'' = Some ''embed'', Embed),
      (\<lambda>ps. params_get ps ''action'' = Some ''getProviders'', GetProviders)]"

definition spec_matches :: "params \<Rightarrow> action list" where
  "spec_matches ps = map snd (filter (\<lambda>(trigger, a). trigger ps) spec_priority_order)"

text \<open>The URL of the popular action as the specification words it: the \<^verbatim>\<open>media_type\<close>
  parameter when present and \<^verbatim>\<open>movie\<close> otherwise, the \<^verbatim>\<open>page\<close> parameter when present and
  \<^verbatim>\<open>1\<close> otherwise.\<close>

definition spec_popular_url :: "params \<Rightarrow> string \<Rightarrow> string" where
  "spec_popular_url ps apiKey =
     ''https://api.themoviedb.org/3/''
     @ (case params_get ps ''media_type'' of None \<Rightarrow> ''movie'' | Some m \<Rightarrow> m)
     @ ''/popular?api_key='' @ apiKey @ ''&language=en-US&page=''
     @ (case params_get ps ''page'' of None \<Rightarrow> ''1'' | Some p \<Rightarrow> p)"

text \<open>The shape of the specification's Video Provider Descriptor.\<close>

datatype jtype = TNull | TBool | TString | TArray | TObject

definition spec_descriptor_shape :: "(string \<times> jtype) list" where
  "spec_descriptor_shape = [(''name'', TString), (''domain'', TString), (''sandboxed'', TBool)]"

subsection \<open>Vocabulary of the properties\<close>

text \<open>The keys of the object literal \<^verbatim>\<open>providerConfigs\<close>, which are the \<^verbatim>\<open>case\<close> labels of
  the \<^verbatim>\<open>switch\<close> in \<^verbatim>\<open>generateEmbedUrl\<close> too.\<close>

definition known_domains :: "string list" where
  "known_domains = [''vidsrc.cc'', ''vidrock.net'', ''vidsrc.me'', ''vidfast.pro'']"

text \<open>The cases of the \<^verbatim>\<open>switch\<close> that end in \<^verbatim>\<open>break\<close> and so reach the \<^verbatim>\<open>try\<close> block.\<close>

definition outbound_actions :: "action list" where
  "outbound_actions = [Details, Credits, Popular, Search, FindByImdbId, GetExternalIds]"

fun jtype_of :: "json \<Rightarrow> jtype" where
  "jtype_of JNull = TNull"
| "jtype_of (JBool b) = TBool"
| "jtype_of (JString s) = TString"
| "jtype_of (JArray xs) = TArray"
| "jtype_of (JObject fs) = TObject"

text \<open>A value has a shape when it is an object whose keys, each with the type of its value,
  are those of the shape, in any order.\<close>

definition has_shape :: "(string \<times> jtype) list \<Rightarrow> json \<Rightarrow> bool" where
  "has_shape sh j =
     (case j of
        JObject fs \<Rightarrow>
          (let typed = map (\<lambda>(k, v). (k, jtype_of v)) fs
           in list_all (\<lambda>kt. kt \<in> set sh) typed \<and> list_all (\<lambda>kt. kt \<in> set typed) sh)
      | _ \<Rightarrow> False)"

text \<open>The keys that the entries of \<^verbatim>\<open>videoProviderList\<close> are written with.\<close>

definition descriptor_shape :: "(string \<times> jtype) list" where
  "descriptor_shape = [(''name'', TString), (''domain'', TString), (''sandbox'', TBool)]"

section \<open>Properties\<close>

subsection \<open>Helper facts\<close>

lemma classify_is_first: "classify ps = (case spec_matches ps of [] \<Rightarrow> Error | a # as \<Rightarrow> a)"
  by (simp add: classify_def spec_matches_def spec_priority_order_def)

lemma or_default_nonempty: "d \<noteq> [] \<Longrightarrow> or_default v d \<noteq> []"
  by (simp add: or_default_def split: option.splits)

lemma providerConfigs_known:
  "provider \<in> set known_domains \<Longrightarrow>
     \<exists>b. providerConfigs e provider = OwnString b \<and> b \<noteq> []"
  by (auto simp add: known_domains_def providerConfigs_def or_default_nonempty)

lemma generateEmbedUrl_unknown:
  "provider \<notin> set known_domains \<Longrightarrow> generateEmbedUrl provider imdbId type e = None"
  by (simp add: generateEmbedUrl_def known_domains_def Let_def)

lemma switch_action_outbound:
  "act \<in> set outbound_actions \<Longrightarrow>
     \<exists>url. switch_action act ps mediaType apiKey e = Inr url \<and> url \<noteq> []"
  by (cases act) (simp_all add: outbound_actions_def switch_action_def Let_def)

lemma switch_action_Inr:
  "switch_action act ps mediaType apiKey e = Inr url \<Longrightarrow>
     act \<in> set outbound_actions \<and> url \<noteq> []"
  by (cases act)
     (auto simp add: outbound_actions_def switch_action_def providers_response_def Let_def
           split: option.splits if_splits)

lemma fetch_switch:
  "method req \<noteq> ''OPTIONS'' \<Longrightarrow> TMDB_API_KEY e = Some apiKey \<Longrightarrow> apiKey \<noteq> [] \<Longrightarrow>
   fetch outbound req e =
     (case switch_action (classify (params req)) (params req)
             (if params_get (params req) ''type'' = Some ''tv'' then ''tv'' else ''movie'')
             apiKey e of
        Inl r \<Rightarrow> r
      | Inr tmdbApiUrl \<Rightarrow> try_catch outbound tmdbApiUrl)"
  by (simp add: fetch_def Let_def)

subsection \<open>Action classification\<close>

text \<open>
  C1. The action chosen by the chain of tests is the first entry of the priority order
  details, credits, popular, query, imdb_id (unless action is embed), tmdb_id, action=embed,
  action=getProviders whose trigger the query parameters match, and the error action when
  none matches. In particular this holds for every request that matches two or more triggers.
  A request with both \<^verbatim>\<open>details\<close> and \<^verbatim>\<open>query\<close> is classified as details; a request with
  \<^verbatim>\<open>imdb_id\<close> and \<^verbatim>\<open>action=getProviders\<close>, and none of the four triggers before
  \<^verbatim>\<open>imdb_id\<close>, is classified as findByImdbId.
\<close>

theorem classify_first_match:
  "(2 \<le> length (spec_matches ps) \<longrightarrow> classify ps = hd (spec_matches ps))
   \<and> classify ps = (case spec_matches ps of [] \<Rightarrow> Error | a # as \<Rightarrow> a)
   \<and> (params_has ps ''details'' \<and> params_has ps ''query'' \<longrightarrow> classify ps = Details)
   \<and> (\<not> params_has ps ''details'' \<and> \<not> params_has ps ''credits'' \<and> \<not> params_has ps ''popular''
        \<and> \<not> params_has ps ''query'' \<and> params_has ps ''imdb_id''
        \<and> params_get ps ''action'' = Some ''getProviders'' \<longrightarrow> classify ps = FindByImdbId)"
proof -
  have first: "classify ps = (case spec_matches ps of [] \<Rightarrow> Error | a # as \<Rightarrow> a)"
    by (rule classify_is_first)
  have two: "2 \<le> length (spec_matches ps) \<longrightarrow> classify ps = hd (spec_matches ps)"
    using first by (cases "spec_matches ps") simp_all
  have ex1: "params_has ps ''details'' \<and> params_has ps ''query'' \<longrightarrow> classify ps = Details"
    by (simp add: classify_def)
  have ex2: "\<not> params_has ps ''details'' \<and> \<not> params_has ps ''credits'' \<and> \<not> params_has ps ''popular''
        \<and> \<not> params_has ps ''query'' \<and> params_has ps ''imdb_id''
        \<and> params_get ps ''action'' = Some ''getProviders'' \<longrightarrow> classify ps = FindByImdbId"
    by (simp add: classify_def)
  from two first ex1 ex2 show ?thesis by blast
qed

theorem classify_first_match_witness:
  "2 \<le> length (spec_matches [(''query'', ''x''), (''details'', ''5'')])
   \<and> spec_matches [(''query'', ''x''), (''details'', ''5'')] = [Details, Search]
   \<and> classify [(''query'', ''x''), (''details'', ''5'')] = Details
   \<and> spec_matches [(''action'', ''getProviders''), (''imdb_id'', ''tt1'')]
       = [FindByImdbId, GetProviders]
   \<and> classify [(''action'', ''getProviders''), (''imdb_id'', ''tt1'')] = FindByImdbId"
  using classify_first_match [of "[(''query'', ''x''), (''details'', ''5'')]"]
        classify_first_match [of "[(''action'', ''getProviders''), (''imdb_id'', ''tt1'')]"]
  by (simp add: spec_matches_def spec_priority_order_def params_has_def params_get_def)

subsection \<open>The missing secret\<close>

text \<open>
  C2. For every request whose method is not OPTIONS, when the binding \<^verbatim>\<open>TMDB_API_KEY\<close> is
  unset or the empty string, the handler answers status 500 with the body
  \<^verbatim>\<open>{error: "Server configuration error: TMDB_API_KEY secret not set."}\<close>, whatever the query
  parameters, the other bindings and the upstream are.
\<close>

theorem missing_key_500:
  assumes "method req \<noteq> ''OPTIONS''"
      and "TMDB_API_KEY e = None \<or> TMDB_API_KEY e = Some []"
  shows "status (fetch outbound req e) = 500
         \<and> body (fetch outbound req e) =
             Some (JObject [(''error'',
               JString ''Server configuration error: TMDB_API_KEY secret not set.'')])"
  using assms by (auto simp add: fetch_def key_error_response_def json_response_def)

theorem missing_key_500_witness:
  "status (fetch (\<lambda>u. JsonBody JNull)
      \<lparr>method = ''GET'', params = [(''action'', ''getProviders'')]\<rparr> no_overrides) = 500
   \<and> body (fetch (\<lambda>u. JsonBody JNull)
      \<lparr>method = ''GET'', params = [(''action'', ''getProviders'')]\<rparr> no_overrides) =
        Some (JObject [(''error'',
               JString ''Server configuration error: TMDB_API_KEY secret not set.'')])
   \<and> status (fetch (\<lambda>u. JsonBody JNull)
      \<lparr>method = ''GET'', params = [(''action'', ''embed''), (''provider'', ''vidsrc.cc''),
         (''imdb_id'', ''tt123'')]\<rparr> (no_overrides\<lparr>TMDB_API_KEY := Some []\<rparr>)) = 500"
  using missing_key_500 [of "\<lparr>method = ''GET'', params = [(''action'', ''getProviders'')]\<rparr>"
          no_overrides "\<lambda>u. JsonBody JNull"]
        missing_key_500 [of "\<lparr>method = ''GET'', params = [(''action'', ''embed''),
          (''provider'', ''vidsrc.cc''), (''imdb_id'', ''tt123'')]\<rparr>"
          "no_overrides\<lparr>TMDB_API_KEY := Some []\<rparr>" "\<lambda>u. JsonBody JNull"]
  by (simp add: no_overrides_def)

subsection \<open>The provider list\<close>

text \<open>
  C3. With the secret set and a method other than OPTIONS, a request classified as
  getProviders and a request classified as embed that lacks the \<^verbatim>\<open>provider\<close> parameter or the
  \<^verbatim>\<open>imdb_id\<close> parameter (or has it empty) get the same response: status 200 and the body
  \<^verbatim>\<open>{providers: videoProviderList}\<close>, a list of four entries.
\<close>

theorem providers_same_response:
  assumes "method req \<noteq> ''OPTIONS''"
      and "TMDB_API_KEY e = Some apiKey" and "apiKey \<noteq> []"
      and "classify (params req) = GetProviders
           \<or> (classify (params req) = Embed
               \<and> (params_get (params req) ''provider'' = None
                   \<or> params_get (params req) ''provider'' = Some []
                   \<or> params_get (params req) ''imdb_id'' = None
                   \<or> params_get (params req) ''imdb_id'' = Some []))"
  shows "fetch outbound req e = providers_response
         \<and> status providers_response = 200
         \<and> body providers_response = Some (JObject [(''providers'', JArray videoProviderList)])
         \<and> length videoProviderList = 4"
proof -
  have sw: "switch_action (classify (params req)) (params req) mt apiKey e = Inl providers_response"
    for mt
    using assms(4) by (auto simp add: switch_action_def split: option.splits)
  have "fetch outbound req e = providers_response"
    using assms(1-3) sw by (simp add: fetch_def Let_def)
  then show ?thesis
    by (simp add: providers_response_def json_response_def videoProviderList_def)
qed

theorem providers_same_response_witness:
  "fetch (\<lambda>u. NetworkError) \<lparr>method = ''GET'', params = [(''action'', ''getProviders'')]\<rparr>
      (no_overrides\<lparr>TMDB_API_KEY := Some ''k''\<rparr>) = providers_response
   \<and> fetch (\<lambda>u. NetworkError)
      \<lparr>method = ''GET'', params = [(''action'', ''embed''), (''imdb_id'', ''tt123'')]\<rparr>
      (no_overrides\<lparr>TMDB_API_KEY := Some ''k''\<rparr>) = providers_response
   \<and> fetch (\<lambda>u. NetworkError)
      \<lparr>method = ''GET'', params = [(''action'', ''embed''), (''provider'', ''vidsrc.cc'')]\<rparr>
      (no_overrides\<lparr>TMDB_API_KEY := Some ''k''\<rparr>) = providers_response"
  using providers_same_response [of
          "\<lparr>method = ''GET'', params = [(''action'', ''getProviders'')]\<rparr>"
          "no_overrides\<lparr>TMDB_API_KEY := Some ''k''\<rparr>" "''k''" "\<lambda>u. NetworkError"]
        providers_same_response [of
          "\<lparr>method = ''GET'', params = [(''action'', ''embed''), (''imdb_id'', ''tt123'')]\<rparr>"
          "no_overrides\<lparr>TMDB_API_KEY := Some ''k''\<rparr>" "''k''" "\<lambda>u. NetworkError"]
        providers_same_response [of
          "\<lparr>method = ''GET'', params = [(''action'', ''embed''), (''provider'', ''vidsrc.cc'')]\<rparr>"
          "no_overrides\<lparr>TMDB_API_KEY := Some ''k''\<rparr>" "''k''" "\<lambda>u. NetworkError"]
  by (simp add: classify_def params_has_def params_get_def no_overrides_def)

text \<open>
  C4, as the specification states it, fails: the entries of the list have no key
  \<^verbatim>\<open>sandboxed\<close>, so the first entry does not have the shape
  \<^verbatim>\<open>{ name: string, domain: string, sandboxed: boolean }\<close>.
\<close>

theorem provider_list_shape_counterexample:
  "\<not> has_shape spec_descriptor_shape (videoProviderList ! 0)"
  by (simp add: videoProviderList_def has_shape_def spec_descriptor_shape_def)

text \<open>
  C4, amended. Every entry of the provider list is an object of shape
  \<^verbatim>\<open>{ name: string, domain: string, sandbox: boolean }\<close>; the list has exactly four entries;
  and it is a constant: whatever the request and the bindings are, a response of the
  \<^verbatim>\<open>switch\<close> whose body is \<^verbatim>\<open>{providers: x}\<close> carries exactly that list.
\<close>

theorem provider_list_shape:
  "list_all (has_shape descriptor_shape) videoProviderList
   \<and> length videoProviderList = 4
   \<and> (switch_action act ps mediaType apiKey e = Inl r
        \<and> body r = Some (JObject [(''providers'', x)]) \<longrightarrow> x = JArray videoProviderList)"
proof -
  have shape: "list_all (has_shape descriptor_shape) videoProviderList"
    by (simp add: videoProviderList_def has_shape_def descriptor_shape_def)
  have len: "length videoProviderList = 4"
    by (simp add: videoProviderList_def)
  have fixed: "switch_action act ps mediaType apiKey e = Inl r
        \<and> body r = Some (JObject [(''providers'', x)]) \<longrightarrow> x = JArray videoProviderList"
    by (cases act)
       (auto simp add: switch_action_def providers_response_def json_response_def Let_def
             split: option.splits if_splits)
  from shape len fixed show ?thesis by blast
qed

theorem provider_list_shape_witness:
  "switch_action GetProviders [] ''movie'' ''k'' no_overrides = Inl providers_response
   \<and> body providers_response = Some (JObject [(''providers'', JArray videoProviderList)])
   \<and> list_all (has_shape descriptor_shape) videoProviderList
   \<and> length videoProviderList = 4"
  using provider_list_shape [of GetProviders "[]" "''movie''" "''k''" no_overrides
          providers_response "JArray videoProviderList"]
  by (simp add: switch_action_def providers_response_def json_response_def)

subsection \<open>Embed URLs\<close>

text \<open>
  C5. With no base-URL override set, \<^verbatim>\<open>generateEmbedUrl("vidsrc.cc", "tt123", "movie", {})\<close>
  is exactly \<^verbatim>\<open>https://vidsrc.cc/v2/embed/movie/tt123\<close>; with the type \<^verbatim>\<open>tv\<close> the result ends
  in \<^verbatim>\<open>tv/tt123\<close>; and \<^verbatim>\<open>generateEmbedUrl("vidfast.pro", "tt123", "movie", {})\<close> ends in
  \<^verbatim>\<open>movie/tt123?autoPlay=true\<close>.
\<close>

theorem generateEmbedUrl_examples:
  "generateEmbedUrl ''vidsrc.cc'' ''tt123'' ''movie'' no_overrides
     = Some ''https://vidsrc.cc/v2/embed/movie/tt123''
   \<and> (\<exists>u. generateEmbedUrl ''vidsrc.cc'' ''tt123'' ''tv'' no_overrides = Some u
          \<and> suffix ''tv/tt123'' u)
   \<and> (\<exists>u. generateEmbedUrl ''vidfast.pro'' ''tt123'' ''movie'' no_overrides = Some u
          \<and> suffix ''movie/tt123?autoPlay=true'' u)"
  by (simp add: generateEmbedUrl_def providerConfigs_def or_default_def no_overrides_def
        suffix_def)

text \<open>
  C10. \<^verbatim>\<open>generateEmbedUrl\<close> normalises the type for two providers only. With the base URL of
  the provider (the override when set and not empty, the default otherwise): for every type
  other than \<^verbatim>\<open>tv\<close>, \<^verbatim>\<open>vidsrc.cc\<close> and \<^verbatim>\<open>vidrock.net\<close> give base, \<^verbatim>\<open>movie/\<close>, imdbId;
  \<^verbatim>\<open>vidsrc.me\<close> gives base, type, \<^verbatim>\<open>/\<close>, imdbId and \<^verbatim>\<open>vidfast.pro\<close> the same followed by
  \<^verbatim>\<open>?autoPlay=true\<close>, whatever the type is; so for the types \<^verbatim>\<open>movie\<close> and \<^verbatim>\<open>tv\<close> all four
  give base, type, \<^verbatim>\<open>/\<close>, imdbId (and the suffix for \<^verbatim>\<open>vidfast.pro\<close>).
\<close>

theorem embed_type_normalisation:
  "(provider \<in> {''vidsrc.cc'', ''vidrock.net''} \<and> type \<noteq> ''tv'' \<longrightarrow>
      generateEmbedUrl provider imdbId type e =
        Some (lookup_str (providerConfigs e provider) @ ''movie/'' @ imdbId))
   \<and> (provider = ''vidsrc.me'' \<longrightarrow>
      generateEmbedUrl provider imdbId type e =
        Some (lookup_str (providerConfigs e provider) @ type @ ''/'' @ imdbId))
   \<and> (provider = ''vidfast.pro'' \<longrightarrow>
      generateEmbedUrl provider imdbId type e =
        Some (lookup_str (providerConfigs e provider) @ type @ ''/'' @ imdbId
              @ ''?autoPlay=true''))
   \<and> (provider \<in> {''vidsrc.cc'', ''vidrock.net'', ''vidsrc.me''}
        \<and> type \<in> {''movie'', ''tv''} \<longrightarrow>
      generateEmbedUrl provider imdbId type e =
        Some (lookup_str (providerConfigs e provider) @ type @ ''/'' @ imdbId))"
proof -
  have t: "truthy (providerConfigs e p)" if "p \<in> set known_domains" for p
    using providerConfigs_known [OF that, of e] by auto
  have cc: "truthy (providerConfigs e ''vidsrc.cc'')"
    and rock: "truthy (providerConfigs e ''vidrock.net'')"
    and me: "truthy (providerConfigs e ''vidsrc.me'')"
    and fast: "truthy (providerConfigs e ''vidfast.pro'')"
    by (simp_all add: t known_domains_def)
  show ?thesis
    using cc rock me fast by (auto simp add: generateEmbedUrl_def Let_def)
qed

theorem embed_type_normalisation_witness:
  "generateEmbedUrl ''vidsrc.cc'' ''tt1'' ''anime'' no_overrides
     = Some ''https://vidsrc.cc/v2/embed/movie/tt1''
   \<and> generateEmbedUrl ''vidrock.net'' ''tt1'' ''anime'' no_overrides
     = Some ''https://vidrock.net/movie/tt1''
   \<and> generateEmbedUrl ''vidsrc.me'' ''tt1'' ''anime'' no_overrides
     = Some ''https://vidsrc.me/embed/anime/tt1''
   \<and> generateEmbedUrl ''vidfast.pro'' ''tt1'' ''anime'' no_overrides
     = Some ''https://vidfast.pro/anime/tt1?autoPlay=true''
   \<and> generateEmbedUrl ''vidrock.net'' ''tt1'' ''tv'' no_overrides
     = Some ''https://vidrock.net/tv/tt1''"
  using embed_type_normalisation [of "''vidsrc.cc''" "''anime''" "''tt1''" no_overrides]
        embed_type_normalisation [of "''vidrock.net''" "''anime''" "''tt1''" no_overrides]
        embed_type_normalisation [of "''vidsrc.me''" "''anime''" "''tt1''" no_overrides]
        embed_type_normalisation [of "''vidfast.pro''" "''anime''" "''tt1''" no_overrides]
        embed_type_normalisation [of "''vidrock.net''" "''tv''" "''tt1''" no_overrides]
  by (simp add: providerConfigs_def or_default_def no_overrides_def)

text \<open>
  C6, as the specification states it, fails: the empty string is a provider that is not among
  the four domains, and an embed request that supplies it together with an \<^verbatim>\<open>imdb_id\<close> is
  answered with the provider list and status 200, not with status 400; so is an embed request
  that supplies an unknown provider together with an empty \<^verbatim>\<open>imdb_id\<close>.
\<close>

theorem empty_provider_counterexample:
  "'''' \<notin> set known_domains
   \<and> classify [(''action'', ''embed''), (''provider'', ''''), (''imdb_id'', ''tt123'')] = Embed
   \<and> params_get [(''action'', ''embed''), (''provider'', ''''), (''imdb_id'', ''tt123'')]
        ''provider'' = Some ''''
   \<and> params_get [(''action'', ''embed''), (''provider'', ''''), (''imdb_id'', ''tt123'')]
        ''imdb_id'' = Some ''tt123''
   \<and> status (fetch (\<lambda>u. NetworkError)
        \<lparr>method = ''GET'',
         params = [(''action'', ''embed''), (''provider'', ''''), (''imdb_id'', ''tt123'')]\<rparr>
        (no_overrides\<lparr>TMDB_API_KEY := Some ''k''\<rparr>)) \<noteq> 400
   \<and> fetch (\<lambda>u. NetworkError)
        \<lparr>method = ''GET'',
         params = [(''action'', ''embed''), (''provider'', ''''), (''imdb_id'', ''tt123'')]\<rparr>
        (no_overrides\<lparr>TMDB_API_KEY := Some ''k''\<rparr>) = providers_response
   \<and> ''unknown.domain'' \<notin> set known_domains
   \<and> classify [(''action'', ''embed''), (''provider'', ''unknown.domain''), (''imdb_id'', '''')]
       = Embed
   \<and> params_has [(''action'', ''embed''), (''provider'', ''unknown.domain''), (''imdb_id'', '''')]
        ''imdb_id''
   \<and> fetch (\<lambda>u. NetworkError)
        \<lparr>method = ''GET'',
         params = [(''action'', ''embed''), (''provider'', ''unknown.domain''),
                   (''imdb_id'', '''')]\<rparr>
        (no_overrides\<lparr>TMDB_API_KEY := Some ''k''\<rparr>) = providers_response
   \<and> status providers_response = 200"
  by (simp add: known_domains_def classify_def params_has_def params_get_def no_overrides_def
        fetch_def switch_action_def providers_response_def json_response_def)

text \<open>
  C6, amended. For every provider string that is not one of the four domains
  \<^verbatim>\<open>generateEmbedUrl\<close> returns null; and a request classified as embed whose \<^verbatim>\<open>provider\<close>
  parameter is such a string and not empty, and whose \<^verbatim>\<open>imdb_id\<close> parameter is not empty,
  is answered (secret set, method other than OPTIONS) with status 400 and the body
  \<^verbatim>\<open>{error: "Invalid provider or unable to generate embed URL."}\<close>.
\<close>

theorem unknown_provider_rejected:
  "(provider \<notin> set known_domains \<longrightarrow> generateEmbedUrl provider imdbId type e = None)
   \<and> (method req \<noteq> ''OPTIONS'' \<and> TMDB_API_KEY e = Some apiKey \<and> apiKey \<noteq> []
        \<and> classify (params req) = Embed
        \<and> params_get (params req) ''provider'' = Some provider \<and> provider \<noteq> []
        \<and> provider \<notin> set known_domains
        \<and> params_get (params req) ''imdb_id'' = Some imdbId \<and> imdbId \<noteq> []
      \<longrightarrow> status (fetch outbound req e) = 400
          \<and> body (fetch outbound req e) =
              Some (JObject [(''error'',
                JString ''Invalid provider or unable to generate embed URL.'')]))"
proof -
  have gen: "provider \<notin> set known_domains \<longrightarrow> generateEmbedUrl provider imdbId type e = None"
    by (simp add: generateEmbedUrl_unknown)
  have router: "status (fetch outbound req e) = 400
          \<and> body (fetch outbound req e) =
              Some (JObject [(''error'',
                JString ''Invalid provider or unable to generate embed URL.'')])"
    if m: "method req \<noteq> ''OPTIONS''" and k: "TMDB_API_KEY e = Some apiKey" "apiKey \<noteq> []"
      and c: "classify (params req) = Embed"
      and p: "params_get (params req) ''provider'' = Some provider" "provider \<noteq> []"
             "provider \<notin> set known_domains"
      and i: "params_get (params req) ''imdb_id'' = Some imdbId" "imdbId \<noteq> []"
  proof -
    have "switch_action Embed (params req) mt apiKey e =
            Inl (json_response 400 (JObject [(''error'',
                JString ''Invalid provider or unable to generate embed URL.'')]))" for mt
      using p i generateEmbedUrl_unknown [of provider imdbId mt e]
      by (simp add: switch_action_def)
    then show ?thesis
      using m k c by (simp add: fetch_switch json_response_def)
  qed
  from gen router show ?thesis by blast
qed

theorem unknown_provider_rejected_witness:
  "generateEmbedUrl ''constructor'' ''tt123'' ''movie'' no_overrides = None
   \<and> generateEmbedUrl ''unknown.domain'' ''tt123'' ''movie''
        (no_overrides\<lparr>TMDB_API_KEY := Some ''k''\<rparr>) = None
   \<and> status (fetch (\<lambda>u. NetworkError)
        \<lparr>method = ''GET'', params = [(''action'', ''embed''), (''provider'', ''unknown.domain''),
           (''imdb_id'', ''tt123'')]\<rparr> (no_overrides\<lparr>TMDB_API_KEY := Some ''k''\<rparr>)) = 400
   \<and> body (fetch (\<lambda>u. NetworkError)
        \<lparr>method = ''GET'', params = [(''action'', ''embed''), (''provider'', ''unknown.domain''),
           (''imdb_id'', ''tt123'')]\<rparr> (no_overrides\<lparr>TMDB_API_KEY := Some ''k''\<rparr>)) =
        Some (JObject [(''error'', JString ''Invalid provider or unable to generate embed URL.'')])"
  using unknown_provider_rejected [of "''constructor''" "''tt123''" "''movie''" no_overrides]
        unknown_provider_rejected [of "''unknown.domain''" "''tt123''" "''movie''"
          "no_overrides\<lparr>TMDB_API_KEY := Some ''k''\<rparr>"
          "\<lparr>method = ''GET'', params = [(''action'', ''embed''), (''provider'', ''unknown.domain''),
           (''imdb_id'', ''tt123'')]\<rparr>" "''k''" "\<lambda>u. NetworkError"]
  by (simp add: known_domains_def classify_def params_has_def params_get_def no_overrides_def)

subsection \<open>The outbound call\<close>

text \<open>
  C7. For every request classified as one of the six outbound-call actions (secret set,
  method other than OPTIONS) the \<^verbatim>\<open>switch\<close> yields a URL, and when the outbound GET to that
  URL fails (the call rejects, or the body is not JSON), or when the \<^verbatim>\<open>try\<close> block throws
  anything at all, the handler answers status 502 with the body
  \<^verbatim>\<open>{error: "Failed to fetch data from TMDB API."}\<close>: what is thrown is caught.
\<close>

theorem upstream_failure_502:
  assumes "method req \<noteq> ''OPTIONS''"
      and "TMDB_API_KEY e = Some apiKey" and "apiKey \<noteq> []"
      and "classify (params req) \<in> set outbound_actions"
  shows "\<exists>url. switch_action (classify (params req)) (params req)
                 (if params_get (params req) ''type'' = Some ''tv'' then ''tv'' else ''movie'')
                 apiKey e = Inr url
           \<and> ((outbound url = NetworkError \<or> outbound url = NonJsonBody
                \<or> (\<exists>err. try_block outbound url = Inl err))
               \<longrightarrow> status (fetch outbound req e) = 502
                   \<and> body (fetch outbound req e) =
                       Some (JObject [(''error'',
                         JString ''Failed to fetch data from TMDB API.'')]))"
proof -
  obtain url where sw: "switch_action (classify (params req)) (params req)
                 (if params_get (params req) ''type'' = Some ''tv'' then ''tv'' else ''movie'')
                 apiKey e = Inr url" and ne: "url \<noteq> []"
    using switch_action_outbound [OF assms(4)] by blast
  have f: "fetch outbound req e = try_catch outbound url"
    using assms(1-3) sw by (simp add: fetch_switch)
  have "status (try_catch outbound url) = 502
        \<and> body (try_catch outbound url) =
            Some (JObject [(''error'', JString ''Failed to fetch data from TMDB API.'')])"
    if "outbound url = NetworkError \<or> outbound url = NonJsonBody
        \<or> (\<exists>err. try_block outbound url = Inl err)"
    using that ne by (auto simp add: try_catch_def try_block_def json_response_def)
  with sw f show ?thesis by auto
qed


theorem upstream_failure_502_witness:
  "classify [(''details'', ''550'')] \<in> set outbound_actions
   \<and> switch_action (classify [(''details'', ''550'')]) [(''details'', ''550'')] ''movie'' ''k''
        (no_overrides\<lparr>TMDB_API_KEY := Some ''k''\<rparr>)
       = Inr ''https://api.themoviedb.org/3/movie/550?api_key=k&language=en-US''
   \<and> status (fetch (\<lambda>u. NetworkError) \<lparr>method = ''GET'', params = [(''details'', ''550'')]\<rparr>
        (no_overrides\<lparr>TMDB_API_KEY := Some ''k''\<rparr>)) = 502
   \<and> body (fetch (\<lambda>u. NonJsonBody) \<lparr>method = ''GET'', params = [(''details'', ''550'')]\<rparr>
        (no_overrides\<lparr>TMDB_API_KEY := Some ''k''\<rparr>)) =
        Some (JObject [(''error'', JString ''Failed to fetch data from TMDB API.'')])"
  using upstream_failure_502 [of "\<lparr>method = ''GET'', params = [(''details'', ''550'')]\<rparr>"
          "no_overrides\<lparr>TMDB_API_KEY := Some ''k''\<rparr>" "''k''" "\<lambda>u. NetworkError"]
        upstream_failure_502 [of "\<lparr>method = ''GET'', params = [(''details'', ''550'')]\<rparr>"
          "no_overrides\<lparr>TMDB_API_KEY := Some ''k''\<rparr>" "''k''" "\<lambda>u. NonJsonBody"]
  by (simp add: classify_def params_has_def params_get_def outbound_actions_def
        switch_action_def js_str_def no_overrides_def)

text \<open>
  C8, as the specification states it, fails: with \<^verbatim>\<open>media_type\<close> and \<^verbatim>\<open>page\<close> present and
  empty, the URL of the popular action has \<^verbatim>\<open>movie\<close> and page \<^verbatim>\<open>1\<close>, not the two (empty)
  parameters.
\<close>

theorem popular_outbound_url_counterexample:
  "classify [(''popular'', ''1''), (''media_type'', ''''), (''page'', '''')] = Popular
   \<and> params_has [(''popular'', ''1''), (''media_type'', ''''), (''page'', '''')] ''media_type''
   \<and> params_has [(''popular'', ''1''), (''media_type'', ''''), (''page'', '''')] ''page''
   \<and> switch_action Popular [(''popular'', ''1''), (''media_type'', ''''), (''page'', '''')]
        ''movie'' ''k'' (no_overrides\<lparr>TMDB_API_KEY := Some ''k''\<rparr>)
       = Inr ''https://api.themoviedb.org/3/movie/popular?api_key=k&language=en-US&page=1''
   \<and> spec_popular_url [(''popular'', ''1''), (''media_type'', ''''), (''page'', '''')] ''k''
       = ''https://api.themoviedb.org/3//popular?api_key=k&language=en-US&page=''
   \<and> switch_action Popular [(''popular'', ''1''), (''media_type'', ''''), (''page'', '''')]
        ''movie'' ''k'' (no_overrides\<lparr>TMDB_API_KEY := Some ''k''\<rparr>)
       \<noteq> Inr (spec_popular_url [(''popular'', ''1''), (''media_type'', ''''), (''page'', '''')]
               ''k'')"
  by (simp add: classify_def params_has_def params_get_def switch_action_def or_default_def
        spec_popular_url_def)

text \<open>
  C8, amended. For every request classified as popular (secret set, method other than
  OPTIONS) the outbound URL has the \<^verbatim>\<open>media_type\<close> parameter when it is present and not
  empty and \<^verbatim>\<open>movie\<close> otherwise, and as page the \<^verbatim>\<open>page\<close> parameter when it is present and
  not empty and \<^verbatim>\<open>1\<close> otherwise; the media type inferred from the \<^verbatim>\<open>type\<close> parameter has
  no effect on it.
\<close>

theorem popular_outbound_url:
  assumes "method req \<noteq> ''OPTIONS''"
      and "TMDB_API_KEY e = Some apiKey" and "apiKey \<noteq> []"
      and "classify (params req) = Popular"
  shows "(\<forall>mediaType.
            switch_action Popular (params req) mediaType apiKey e =
              Inr (''https://api.themoviedb.org/3/''
                   @ (case params_get (params req) ''media_type'' of
                        None \<Rightarrow> ''movie'' | Some m \<Rightarrow> if m = [] then ''movie'' else m)
                   @ ''/popular?api_key='' @ apiKey @ ''&language=en-US&page=''
                   @ (case params_get (params req) ''page'' of
                        None \<Rightarrow> ''1'' | Some p \<Rightarrow> if p = [] then ''1'' else p)))
         \<and> fetch outbound req e =
             try_catch outbound
               (''https://api.themoviedb.org/3/''
                @ (case params_get (params req) ''media_type'' of
                     None \<Rightarrow> ''movie'' | Some m \<Rightarrow> if m = [] then ''movie'' else m)
                @ ''/popular?api_key='' @ apiKey @ ''&language=en-US&page=''
                @ (case params_get (params req) ''page'' of
                     None \<Rightarrow> ''1'' | Some p \<Rightarrow> if p = [] then ''1'' else p))"
  using assms by (simp add: fetch_switch switch_action_def or_default_def Let_def)

theorem popular_outbound_url_witness:
  "fetch (\<lambda>u. NetworkError)
     \<lparr>method = ''GET'', params = [(''popular'', ''1''), (''type'', ''tv''), (''page'', ''3'')]\<rparr>
     (no_overrides\<lparr>TMDB_API_KEY := Some ''k''\<rparr>)
    = try_catch (\<lambda>u. NetworkError)
        ''https://api.themoviedb.org/3/movie/popular?api_key=k&language=en-US&page=3''
   \<and> fetch (\<lambda>u. NetworkError)
     \<lparr>method = ''GET'', params = [(''popular'', ''1''), (''media_type'', ''tv'')]\<rparr>
     (no_overrides\<lparr>TMDB_API_KEY := Some ''k''\<rparr>)
    = try_catch (\<lambda>u. NetworkError)
        ''https://api.themoviedb.org/3/tv/popular?api_key=k&language=en-US&page=1''"
  using popular_outbound_url [of
          "\<lparr>method = ''GET'', params = [(''popular'', ''1''), (''type'', ''tv''), (''page'', ''3'')]\<rparr>"
          "no_overrides\<lparr>TMDB_API_KEY := Some ''k''\<rparr>" "''k''" "\<lambda>u. NetworkError"]
        popular_outbound_url [of
          "\<lparr>method = ''GET'', params = [(''popular'', ''1''), (''media_type'', ''tv'')]\<rparr>"
          "no_overrides\<lparr>TMDB_API_KEY := Some ''k''\<rparr>" "''k''" "\<lambda>u. NetworkError"]
  by (simp add: classify_def params_has_def params_get_def no_overrides_def)

text \<open>
  C9. The \<^verbatim>\<open>switch\<close> reaches the \<^verbatim>\<open>try\<close> block exactly for the six outbound-call actions,
  and then \<^verbatim>\<open>tmdbApiUrl\<close> is not empty, so the \<^verbatim>\<open>try\<close> block never throws the internal
  logic error.
\<close>

theorem api_url_nonempty:
  "(act \<in> set outbound_actions \<longrightarrow>
      (\<exists>url. switch_action act ps mediaType apiKey e = Inr url))
   \<and> (switch_action act ps mediaType apiKey e = Inr url \<longrightarrow>
        act \<in> set outbound_actions \<and> url \<noteq> []
        \<and> try_block outbound url \<noteq> Inl InternalLogicError)"
proof -
  have a: "act \<in> set outbound_actions \<longrightarrow>
      (\<exists>url. switch_action act ps mediaType apiKey e = Inr url)"
    using switch_action_outbound [of act ps mediaType apiKey e] by blast
  have b: "act \<in> set outbound_actions \<and> url \<noteq> []
        \<and> try_block outbound url \<noteq> Inl InternalLogicError"
    if "switch_action act ps mediaType apiKey e = Inr url"
  proof -
    from switch_action_Inr [OF that] have o: "act \<in> set outbound_actions" and n: "url \<noteq> []"
      by simp_all
    from n have "try_block outbound url \<noteq> Inl InternalLogicError"
      by (simp add: try_block_def split: upstream.splits)
    with o n show ?thesis by simp
  qed
  from a b show ?thesis by blast
qed

theorem api_url_nonempty_witness:
  "Search \<in> set outbound_actions
   \<and> switch_action Search [(''query'', ''foo bar'')] ''movie'' ''k'' no_overrides
       = Inr ''https://api.themoviedb.org/3/search/multi?api_key=k&query=foo%20bar&language=en-US&page=1''
   \<and> try_block (\<lambda>u. NetworkError)
        ''https://api.themoviedb.org/3/search/multi?api_key=k&query=foo%20bar&language=en-US&page=1''
       \<noteq> Inl InternalLogicError"
  using api_url_nonempty [of Search "[(''query'', ''foo bar'')]" "''movie''" "''k''" no_overrides
          "''https://api.themoviedb.org/3/search/multi?api_key=k&query=foo%20bar&language=en-US&page=1''"
          "\<lambda>u. NetworkError"]
  by (simp add: outbound_actions_def switch_action_def params_get_def encodeURIComponent_def
        js_str_def pct_def unreserved_def hexdigit_def)

end
